theory Spec2Isabelle
  imports Complex_Main "HOL-Library.Sublist" "HOL-Library.Log_Nat"
begin

section \<open>Python string operations used by the matcher\<close>

text \<open>
  Text is modelled as \<open>string\<close> over ASCII: the cased characters are the 26 Latin letters
  and every other character is left alone by \<open>lower\<close> and \<open>title\<close>. A score is the
  rational number that the number in the record is; a priority rank is an integer, as the
  interventions table declares it (1 to 5), and a Python \<^verbatim>\<open>int\<close> in the source.
\<close>

definition ascii_uppercase :: string where
  "ascii_uppercase = ''ABCDEFGHIJKLMNOPQRSTUVWXYZ''"

definition ascii_lowercase :: string where
  "ascii_lowercase = ''abcdefghijklmnopqrstuvwxyz''"

definition lower_char :: "char \<Rightarrow> char" where
  "lower_char c = (case map_of (zip ascii_uppercase ascii_lowercase) c of Some d \<Rightarrow> d | None \<Rightarrow> c)"

definition upper_char :: "char \<Rightarrow> char" where
  "upper_char c = (case map_of (zip ascii_lowercase ascii_uppercase) c of Some d \<Rightarrow> d | None \<Rightarrow> c)"

definition is_cased :: "char \<Rightarrow> bool" where
  "is_cased c = (c \<in> set (ascii_uppercase @ ascii_lowercase))"

text \<open>\<^verbatim>\<open>s.lower()\<close>\<close>

definition lower :: "string \<Rightarrow> string" where
  "lower s = map lower_char s"

text \<open>\<^verbatim>\<open>s.replace(old, new)\<close> for one-character \<open>old\<close> and \<open>new\<close>, the only use the source makes of it.\<close>

definition replace :: "char \<Rightarrow> char \<Rightarrow> string \<Rightarrow> string" where
  "replace old new s = map (\<lambda>c. if c = old then new else c) s"

text \<open>
  \<^verbatim>\<open>s.title()\<close>: a cased character is upper-cased when the character before it is not cased
  (or there is none), and lower-cased otherwise.
\<close>

fun title_from :: "bool \<Rightarrow> string \<Rightarrow> string" where
  "title_from previous_is_cased [] = []"
| "title_from previous_is_cased (c # cs) =
     (if previous_is_cased then lower_char c else upper_char c) # title_from (is_cased c) cs"

definition title :: "string \<Rightarrow> string" where
  "title s = title_from False s"

text \<open>
  \<^verbatim>\<open>s.split()\<close> with no argument: the maximal runs of non-whitespace characters, in order.
  The ASCII characters Python counts as whitespace are tab, line feed, vertical tab, form
  feed, carriage return, the four separators 0x1C to 0x1F and the space.
\<close>

definition whitespace :: string where
  "whitespace = [CHR 0x09, CHR 0x0A, CHR 0x0B, CHR 0x0C, CHR 0x0D,
                 CHR 0x1C, CHR 0x1D, CHR 0x1E, CHR 0x1F, CHR '' '']"

definition is_space :: "char \<Rightarrow> bool" where
  "is_space c = (c \<in> set whitespace)"

fun split_from :: "string \<Rightarrow> string \<Rightarrow> string list" where
  "split_from cur [] = (if cur = [] then [] else [cur])"
| "split_from cur (c # cs) =
     (if is_space c then (if cur = [] then split_from [] cs else cur # split_from [] cs)
      else split_from (cur @ [c]) cs)"

definition split :: "string \<Rightarrow> string list" where
  "split s = split_from [] s"

text \<open>\<^verbatim>\<open>kw in s\<close> on strings: \<open>kw\<close> occurs in \<open>s\<close> as a contiguous run.\<close>

fun str_in :: "string \<Rightarrow> string \<Rightarrow> bool" where
  "str_in kw [] = (kw = [])"
| "str_in kw (c # cs) = (prefix kw (c # cs) \<or> str_in kw cs)"

text \<open>
  \<^verbatim>\<open>f"{x:.1f}"\<close>: the decimal expansion of \<open>x\<close> rounded to one digit after the point, ties
  to the even digit, with a minus sign for a negative \<open>x\<close>.
\<close>

definition round_half_even :: "rat \<Rightarrow> int" where
  "round_half_even x =
     (let n = \<lfloor>x\<rfloor>; r = x - of_int n
      in if r < 1 / 2 then n else if 1 / 2 < r then n + 1 else if even n then n else n + 1)"

definition digit_char :: "nat \<Rightarrow> char" where
  "digit_char d = ''0123456789'' ! d"

function digits :: "nat \<Rightarrow> string" where
  "digits n = (if n < 10 then [digit_char n] else digits (n div 10) @ [digit_char (n mod 10)])"
  by pat_completeness auto
termination
  by (relation "measure id") auto

declare digits.simps [simp del]

definition format_1f :: "rat \<Rightarrow> string" where
  "format_1f x =
     (let n = nat (round_half_even (10 * \<bar>x\<bar>))
      in (if x < 0 then ''-'' else []) @ digits (n div 10) @ ''.'' @ [digit_char (n mod 10)])"

text \<open>\<^verbatim>\<open>d.get(k, default)\<close>\<close>

definition get_or :: "('k \<rightharpoonup> 'v) \<Rightarrow> 'k \<Rightarrow> 'v \<Rightarrow> 'v" where
  "get_or d k dflt = (case d k of None \<Rightarrow> dflt | Some v \<Rightarrow> v)"

text \<open>\<^verbatim>\<open>xs[:n]\<close>: the first \<open>n\<close> elements, or all but the last \<open>-n\<close> for a negative \<open>n\<close>.\<close>

definition slice_to :: "int \<Rightarrow> 'a list \<Rightarrow> 'a list" where
  "slice_to n xs = (if 0 \<le> n then take (nat n) xs else take (length xs - nat (- n)) xs)"


section \<open>Python floats\<close>

text \<open>
  The final priority is a Python \<^verbatim>\<open>float\<close>, an IEEE double. A double is modelled by the
  rational number it is, and every operation that yields a double rounds its exact result
  to the nearest double, ties to the even significand: a double has a significand of 53
  bits, so around \<open>x\<close> the doubles are the multiples of \<open>2 powi (e - 52)\<close>, where
  \<open>2 powi e \<le> \<bar>x\<bar> < 2 powi (e + 1)\<close>. The range of the exponent is not modelled:
  an \<^verbatim>\<open>int\<close> of 2 to the 1024 or more in magnitude, for which the conversion raises
  \<^verbatim>\<open>OverflowError\<close>, is outside the model.
\<close>

definition float_exponent :: "rat \<Rightarrow> int" where
  "float_exponent x =
     (if 1 \<le> \<bar>x\<bar> then bitlen \<lfloor>\<bar>x\<bar>\<rfloor> - 1 else - bitlen (\<lceil>1 / \<bar>x\<bar>\<rceil> - 1))"

definition round_to_double :: "rat \<Rightarrow> rat" where
  "round_to_double x =
     (if x = 0 then 0
      else let ulp = 2 powi (float_exponent x - 52)
           in of_int (round_half_even (x / ulp)) * ulp)"

text \<open>\<^verbatim>\<open>float(k)\<close>, as \<^verbatim>\<open>k - x\<close> applies it to an \<^verbatim>\<open>int\<close> \<open>k\<close> and a \<^verbatim>\<open>float\<close> \<open>x\<close>.\<close>

definition float_of_int :: "int \<Rightarrow> rat" where
  "float_of_int k = round_to_double (of_int k)"

text \<open>\<^verbatim>\<open>a / b\<close> on two \<^verbatim>\<open>int\<close>s, for a divisor that is not 0 (the source divides by 50).\<close>

definition truediv :: "int \<Rightarrow> int \<Rightarrow> rat" where
  "truediv a b = round_to_double (of_int a / of_int b)"

text \<open>\<^verbatim>\<open>a - b\<close> on two \<^verbatim>\<open>float\<close>s.\<close>

definition float_sub :: "rat \<Rightarrow> rat \<Rightarrow> rat" where
  "float_sub a b = round_to_double (a - b)"


section \<open>Module constants\<close>

text \<open>
  The module-level names the matcher can see. A Python function reads a global from the
  module's namespace when it runs, so the namespace is an argument of the model.
\<close>

record globals =
  HIGH_SCORE_THRESHOLD :: rat
  MODERATE_SCORE_THRESHOLD :: rat
  MAX_INTERVENTIONS_PER_PATIENT :: int
  SOURCE_CATEGORY_KEYWORDS :: "(string \<times> string list) list"

definition module_globals :: globals where
  "module_globals =
     \<lparr> HIGH_SCORE_THRESHOLD = 7,
       MODERATE_SCORE_THRESHOLD = 5,
       MAX_INTERVENTIONS_PER_PATIENT = 10,
       SOURCE_CATEGORY_KEYWORDS =
         [(''rice'', [''rice'', ''brown rice'', ''rice servings'']),
          (''well_water'', [''well water'', ''unfiltered water'', ''private well'']),
          (''produce_arsenic'', [''leafy greens'', ''spinach'', ''kale'']),
          (''pressure_treated_wood'', [''deck'', ''playground'', ''treated wood'']),
          (''high_mercury_fish'', [''tuna'', ''swordfish'', ''king mackerel'', ''fish servings'']),
          (''dental_amalgam'', [''amalgam'', ''silver fillings'', ''dental'']),
          (''pre_1978_home'', [''home built'', ''old home'', ''lead paint'']),
          (''lead_pipes'', [''lead pipes'', ''old pipes'', ''lead water'']),
          (''lead_cookware'', [''ceramic'', ''pottery'', ''glazed'']),
          (''occupational_lead'', [''construction'', ''battery'', ''welding'']),
          (''smoking'', [''smoking'', ''cigarettes'', ''tobacco'']),
          (''shellfish'', [''oysters'', ''mussels'', ''scallops'', ''shellfish'']),
          (''nonstick_cookware'', [''nonstick'', ''teflon'', ''cookware'']),
          (''pfas_water'', [''pfas water'', ''contaminated water'']),
          (''fast_food'', [''fast food'', ''takeout'', ''food packaging'']),
          (''coffee'', [''coffee'']),
          (''nuts'', [''nuts'', ''peanuts'', ''peanut butter'']),
          (''grains'', [''corn'', ''wheat'', ''grains'']),
          (''visible_mold'', [''mold'', ''water damage'', ''musty'']),
          (''hvac'', [''hvac'', ''ducts'', ''air conditioning'']),
          (''humidity'', [''humidity'', ''basement'', ''damp'']),
          (''cleaning_products'', [''cleaning'', ''cleaners'', ''disinfectants'']),
          (''new_furniture'', [''new furniture'', ''new mattress'', ''off-gassing'']),
          (''air_fresheners'', [''air freshener'', ''scented candles'', ''fragrance'']),
          (''produce_pesticides'', [''produce'', ''dirty dozen'', ''non-organic'']),
          (''lawn_pesticides'', [''lawn'', ''herbicide'', ''weed killer'']),
          (''personal_care'', [''personal care'', ''fragrance'', ''perfume'', ''cologne'']),
          (''plastic_food'', [''plastic'', ''food storage'', ''microwave''])] \<rparr>"


section \<open>Data model\<close>

text \<open>
  An entry of \<^verbatim>\<open>self.interventions\<close>, as \<^verbatim>\<open>_load_interventions\<close> builds it. The fields read
  with \<^verbatim>\<open>fields.get(name)\<close> and no default may be absent (\<open>None\<close>).
\<close>

record intervention =
  record_id :: string
  intervention_id :: "string option"
  domain :: "string option"
  source_category :: string
  intervention_name :: "string option"
  priority_rank :: int
  difficulty_level :: string
  expected_reduction_percent :: rat
  estimated_cost :: string

text \<open>The dictionary \<^verbatim>\<open>_get_unprocessed_scores\<close> builds for one score record.\<close>

record score_data =
  score_record_id :: string
  patient_id :: "string option"
  report_id :: string
  survey_id :: "string option"
  scores :: "string \<rightharpoonup> rat"
  primary_sources :: "string \<rightharpoonup> string"
  confidence :: "string \<rightharpoonup> string"

text \<open>A match: \<^verbatim>\<open>(intervention, final_priority, reason)\<close>.\<close>

type_synonym candidate = "intervention \<times> rat \<times> string"

definition final_priority :: "candidate \<Rightarrow> rat" where
  "final_priority m = fst (snd m)"

definition reason :: "candidate \<Rightarrow> string" where
  "reason m = snd (snd m)"


section \<open>The matcher\<close>

text \<open>\<^verbatim>\<open>domain_map\<close>, in the order its items are iterated.\<close>

definition domain_map :: "(string \<times> string) list" where
  "domain_map =
     [(''arsenic'', ''Arsenic''),
      (''mercury'', ''Mercury''),
      (''lead'', ''Lead''),
      (''cadmium'', ''Cadmium''),
      (''pfas'', ''PFAS''),
      (''phthalates'', ''Phthalates''),
      (''pesticides'', ''Pesticides''),
      (''vocs'', ''VOCs''),
      (''parabens'', ''Parabens''),
      (''mycotoxins_food'', ''Mycotoxins-Food''),
      (''mycotoxins_water_damage'', ''Mycotoxins-WaterDamage'')]"

text \<open>Lines 230 to 238: the priority from score and confidence.\<close>

definition base_priority :: "globals \<Rightarrow> rat \<Rightarrow> string \<Rightarrow> int" where
  "base_priority g score conf =
     (if HIGH_SCORE_THRESHOLD g \<le> score
      then (if conf = ''high'' then 1 else if conf = ''moderate'' then 2 else 3)
      else 3)"

text \<open>
  Line 242, negated: the entry's domain is \<^verbatim>\<open>in [domain_name, domain_name.replace('-', ' ')]\<close>.
\<close>

definition domain_accepts :: "string \<Rightarrow> string option \<Rightarrow> bool" where
  "domain_accepts domain_name d =
     (d = Some domain_name \<or> d = Some (replace CHR ''-'' CHR '' '' domain_name))"

text \<open>
  Lines 250 to 258: \<open>sc\<close> is the lower-cased source category of the entry, \<open>primary_source\<close>
  the lower-cased primary source of the domain.
\<close>

definition relevance_score :: "string \<Rightarrow> string \<Rightarrow> int" where
  "relevance_score sc primary_source =
     (if sc \<noteq> [] \<and> list_ex (\<lambda>keyword. str_in keyword primary_source) (split sc) then 0 + 100
      else if sc = [] then 0 + 50
      else 0)"

text \<open>Lines 269 to 273.\<close>

definition reason_string :: "string \<Rightarrow> rat \<Rightarrow> string \<Rightarrow> string \<Rightarrow> string" where
  "reason_string domain_name score conf sc =
     (replace CHR ''-'' CHR '' '' domain_name @ '' score: '' @ format_1f score @ ''/10'')
     @ (if conf \<noteq> ''low'' then '' ('' @ conf @ '' confidence)'' else [])
     @ (if sc \<noteq> [] then '' - Source: '' @ title (replace CHR ''_'' CHR '' '' sc) else [])"

text \<open>
  The body of the inner loop for one catalog entry: \<open>None\<close> where the source says
  \<^verbatim>\<open>continue\<close>, the appended tuple otherwise. In line 266 the sum of the two \<^verbatim>\<open>int\<close>s is
  an \<^verbatim>\<open>int\<close>, the quotient a \<^verbatim>\<open>float\<close>, and their difference a \<^verbatim>\<open>float\<close>.
\<close>

definition match_entry ::
  "string \<Rightarrow> rat \<Rightarrow> string \<Rightarrow> string \<Rightarrow> int \<Rightarrow> intervention \<Rightarrow> candidate option" where
  "match_entry domain_name score primary_source conf base iv =
     (if \<not> domain_accepts domain_name (domain iv) then None
      else
        let sc = lower (source_category iv);
            intervention_priority = priority_rank iv;
            relevance = relevance_score sc primary_source
        in if relevance = 0 then None
           else Some (iv,
                      float_sub (float_of_int (base + (intervention_priority - 1)))
                        (truediv relevance 50),
                      reason_string domain_name score conf sc))"

text \<open>The body of the outer loop for one item of \<open>domain_map\<close>: the tuples it appends.\<close>

definition match_domain ::
  "globals \<Rightarrow> intervention list \<Rightarrow> score_data \<Rightarrow> string \<times> string \<Rightarrow> candidate list" where
  "match_domain g interventions sd item =
     (let domain_key = fst item; domain_name = snd item;
          score = get_or (scores sd) domain_key 0
      in if score < MODERATE_SCORE_THRESHOLD g then []
         else
           let primary_source = lower (get_or (primary_sources sd) domain_key []);
               conf = lower (get_or (confidence sd) domain_key ''low'');
               base = base_priority g score conf
           in List.map_filter (match_entry domain_name score primary_source conf base) interventions)"

text \<open>\<^verbatim>\<open>matches\<close> when the two loops are over.\<close>

definition all_matches :: "globals \<Rightarrow> intervention list \<Rightarrow> score_data \<Rightarrow> candidate list" where
  "all_matches g interventions sd = concat (map (match_domain g interventions sd) domain_map)"

text \<open>
  \<^verbatim>\<open>_match_interventions_for_patient\<close>: \<^verbatim>\<open>list.sort\<close> is a stable sort, as \<open>sort_key\<close> is.
\<close>

definition match_interventions_for_patient ::
  "globals \<Rightarrow> intervention list \<Rightarrow> score_data \<Rightarrow> candidate list" where
  "match_interventions_for_patient g interventions sd =
     slice_to (MAX_INTERVENTIONS_PER_PATIENT g) (sort_key final_priority (all_matches g interventions sd))"


section \<open>Ingesting score records\<close>

text \<open>
  A record of the store: its id and its fields, the text columns and the number columns
  apart. \<^verbatim>\<open>_get_unprocessed_scores\<close> keeps the score records that have a non-empty
  \<^verbatim>\<open>report_id\<close> which no existing assignment carries, and builds one dictionary for each.
\<close>

record airtable_record =
  airtable_id :: string
  text_fields :: "string \<rightharpoonup> string"
  number_fields :: "string \<rightharpoonup> rat"

definition processed_report_ids :: "airtable_record list \<Rightarrow> string list" where
  "processed_report_ids existing_assignments =
     List.map_filter (\<lambda>a. text_fields a ''report_id'') existing_assignments"

definition unprocessed_entry :: "airtable_record \<Rightarrow> string \<Rightarrow> score_data" where
  "unprocessed_entry score_record rid =
     (let text = text_fields score_record; number = number_fields score_record
      in \<lparr> score_record_id = airtable_id score_record,
           patient_id = text ''patient_id'',
           report_id = rid,
           survey_id = text ''survey_id'',
           scores = map_of
             [(''arsenic'', get_or number ''arsenic_source_score'' 0),
              (''mercury'', get_or number ''mercury_source_score'' 0),
              (''lead'', get_or number ''lead_source_score'' 0),
              (''cadmium'', get_or number ''cadmium_source_score'' 0),
              (''pfas'', get_or number ''pfas_source_score'' 0),
              (''phthalates'', get_or number ''phthalates_source_score'' 0),
              (''pesticides'', get_or number ''pesticides_source_score'' 0),
              (''vocs'', get_or number ''vocs_source_score'' 0),
              (''parabens'', get_or number ''parabens_source_score'' 0),
              (''mycotoxins_food'', get_or number ''mycotoxins_food_score'' 0),
              (''mycotoxins_water_damage'', get_or number ''mycotoxins_water_damage_score'' 0)],
           primary_sources = map_of
             [(''arsenic'', get_or text ''arsenic_primary_source'' []),
              (''mercury'', get_or text ''mercury_primary_source'' []),
              (''lead'', get_or text ''lead_primary_source'' []),
              (''cadmium'', get_or text ''cadmium_primary_source'' []),
              (''pfas'', get_or text ''pfas_primary_source'' []),
              (''phthalates'', get_or text ''phthalates_primary_source'' []),
              (''pesticides'', get_or text ''pesticides_primary_source'' []),
              (''vocs'', get_or text ''vocs_primary_source'' []),
              (''parabens'', get_or text ''parabens_primary_source'' []),
              (''mycotoxins_food'', get_or text ''mycotoxins_food_primary_source'' []),
              (''mycotoxins_water_damage'', get_or text ''mycotoxins_water_damage_primary_source'' [])],
           confidence = map_of
             [(''arsenic'', get_or text ''arsenic_confidence'' ''low''),
              (''mercury'', get_or text ''mercury_confidence'' ''low''),
              (''lead'', get_or text ''lead_confidence'' ''low''),
              (''cadmium'', get_or text ''cadmium_confidence'' ''low''),
              (''pfas'', get_or text ''pfas_confidence'' ''low''),
              (''phthalates'', get_or text ''phthalates_confidence'' ''low''),
              (''pesticides'', get_or text ''pesticides_confidence'' ''low''),
              (''vocs'', get_or text ''vocs_confidence'' ''low'')] \<rparr>)"

definition get_unprocessed_scores ::
  "airtable_record list \<Rightarrow> airtable_record list \<Rightarrow> score_data list" where
  "get_unprocessed_scores all_scores existing_assignments =
     (let processed = processed_report_ids existing_assignments
      in List.map_filter
           (\<lambda>score_record.
              case text_fields score_record ''report_id'' of
                None \<Rightarrow> None
              | Some rid \<Rightarrow>
                  if rid \<noteq> [] \<and> rid \<notin> set processed
                  then Some (unprocessed_entry score_record rid) else None)
           all_scores)"


section \<open>Materializing assignments\<close>

text \<open>
  \<^verbatim>\<open>_create_intervention_assignments\<close>: the record written for the candidate at 1-based
  position \<open>idx\<close> of the matcher's list. The sink's \<^verbatim>\<open>create\<close> may raise; \<open>create\<close> says for
  which records it succeeds, and the function returns the records written and their count.
\<close>

record assignment_data =
  assignment_patient_id :: "string option"
  assignment_report_id :: string
  assignment_intervention_id :: string
  assigned_date :: string
  priority :: int
  status :: string
  assigned_by :: string
  practitioner_notes :: string

definition priority_tier :: "nat \<Rightarrow> int" where
  "priority_tier idx = (if idx \<le> 3 then 1 else if idx \<le> 6 then 2 else 3)"

definition assignment_for ::
  "string option \<Rightarrow> string \<Rightarrow> string \<Rightarrow> nat \<times> candidate \<Rightarrow> assignment_data" where
  "assignment_for patient report date x =
     (case x of (idx, iv, p, why) \<Rightarrow>
        \<lparr> assignment_patient_id = patient,
          assignment_report_id = report,
          assignment_intervention_id = record_id iv,
          assigned_date = date,
          priority = priority_tier idx,
          status = ''Not Started'',
          assigned_by = ''Automated'',
          practitioner_notes = why \<rparr>)"

definition assignment_rows ::
  "string option \<Rightarrow> string \<Rightarrow> string \<Rightarrow> candidate list \<Rightarrow> assignment_data list" where
  "assignment_rows patient report date matched_interventions =
     map (assignment_for patient report date) (List.enumerate 1 matched_interventions)"

definition create_intervention_assignments ::
  "(assignment_data \<Rightarrow> bool) \<Rightarrow> string option \<Rightarrow> string \<Rightarrow> string \<Rightarrow> candidate list
     \<Rightarrow> assignment_data list \<times> nat" where
  "create_intervention_assignments create patient report date matched_interventions =
     (let created = filter create (assignment_rows patient report date matched_interventions)
      in (created, length created))"


section \<open>The constants of the module\<close>

lemma high_threshold: "HIGH_SCORE_THRESHOLD module_globals = 7"
  by (simp add: module_globals_def)

lemma moderate_threshold: "MODERATE_SCORE_THRESHOLD module_globals = 5"
  by (simp add: module_globals_def)

lemma max_interventions: "MAX_INTERVENTIONS_PER_PATIENT module_globals = 10"
  by (simp add: module_globals_def)


section \<open>Facts about double arithmetic\<close>

text \<open>Integers of less than 53 bits are doubles, and the operations on them are exact.\<close>

lemma round_half_even_of_int: "round_half_even (of_int m) = m"
  by (simp add: round_half_even_def)

lemma round_to_double_of_int:
  assumes "\<bar>n\<bar> < 2 ^ 53"
  shows "round_to_double (of_int n) = of_int n"
proof (cases "n = 0")
  case True
  then show ?thesis by (simp add: round_to_double_def)
next
  case False
  then have "1 \<le> \<bar>n\<bar>" by simp
  then have "(1::rat) \<le> of_int \<bar>n\<bar>" by simp
  then have one: "(1::rat) \<le> \<bar>of_int n\<bar>" by simp
  have fl: "\<lfloor>\<bar>of_int n :: rat\<bar>\<rfloor> = \<bar>n\<bar>"
    by (simp flip: of_int_abs)
  have le: "bitlen \<bar>n\<bar> \<le> 53"
    using assms by (simp add: bitlen_le_iff_power)
  define p where "p = nat (53 - bitlen \<bar>n\<bar>)"
  with le have p: "bitlen \<bar>n\<bar> - 1 - 52 = - int p"
    by simp
  have ulp: "(2::rat) powi (float_exponent (of_int n) - 52) = inverse (2 ^ p)"
    using one by (simp add: float_exponent_def fl p power_int_minus)
  have "of_int n / inverse ((2::rat) ^ p) = of_int (n * 2 ^ p)"
    by (simp add: divide_inverse)
  then have "round_half_even (of_int n / inverse ((2::rat) ^ p)) = n * 2 ^ p"
    by (simp only: round_half_even_of_int)
  then show ?thesis
    using False by (simp add: round_to_double_def ulp Let_def)
qed

lemma round_to_double_numeral [simp]:
  "round_to_double 1 = 1" "round_to_double 2 = 2"
  using round_to_double_of_int[of 1] round_to_double_of_int[of 2] by simp_all

lemma round_to_double_int: "round_to_double (of_int n) \<in> \<int>"
proof (cases "\<bar>n\<bar> < 2 ^ 53")
  case True
  then show ?thesis by (simp add: round_to_double_of_int)
next
  case False
  then have big: "2 ^ 53 \<le> \<bar>n\<bar>" by simp
  then have n0: "n \<noteq> 0" by auto
  from big have "(1::rat) \<le> of_int \<bar>n\<bar>" by simp
  then have one: "(1::rat) \<le> \<bar>of_int n\<bar>" by simp
  have fl: "\<lfloor>\<bar>of_int n :: rat\<bar>\<rfloor> = \<bar>n\<bar>"
    by (simp flip: of_int_abs)
  have ge: "54 \<le> bitlen \<bar>n\<bar>"
    using big by (simp add: bitlen_ge_iff_power)
  define q where "q = nat (bitlen \<bar>n\<bar> - 53)"
  with ge have q: "bitlen \<bar>n\<bar> - 1 - 52 = int q"
    by simp
  have ulp: "(2::rat) powi (float_exponent (of_int n) - 52) = of_int (2 ^ q)"
    using one by (simp add: float_exponent_def fl q)
  show ?thesis
    using n0 by (simp add: round_to_double_def ulp Let_def del: of_int_power)
qed

lemma priority_arith_exact:
  assumes "r = 50 \<or> r = 100" and "\<bar>k\<bar> < 9007199254740990"
  shows "float_sub (float_of_int k) (truediv r 50) = of_int (k - r div 50)"
proof -
  have k: "float_of_int k = of_int k"
    using assms(2) by (simp add: float_of_int_def round_to_double_of_int)
  from assms(1) have t: "truediv r 50 = of_int (r div 50)"
    by (auto simp: truediv_def)
  have "\<bar>k - r div 50\<bar> < 2 ^ 53"
    using assms by auto
  then have "round_to_double (of_int (k - r div 50)) = of_int (k - r div 50)"
    by (rule round_to_double_of_int)
  then show ?thesis
    by (simp add: float_sub_def k t)
qed

lemma priority_arith_int:
  assumes "r = 50 \<or> r = 100"
  shows "float_sub (float_of_int k) (truediv r 50) \<in> \<int>"
proof -
  obtain m where m: "float_of_int k = of_int m"
    using round_to_double_int[of k] by (auto simp: float_of_int_def elim: Ints_cases)
  from assms have t: "truediv r 50 = of_int (r div 50)"
    by (auto simp: truediv_def)
  have "round_to_double (of_int (m - r div 50)) \<in> \<int>"
    by (rule round_to_double_int)
  then show ?thesis
    by (simp add: float_sub_def m t)
qed

text \<open>Beyond 53 bits the conversion and the subtraction round.\<close>

lemma rounding_examples:
  "float_of_int 9007199254740993 = 9007199254740992"
  "float_sub (float_of_int 9007199254740996) (truediv 50 50) = 9007199254740996"
  "truediv 1 5 = 3602879701896397 / 18014398509481984"
  by code_simp+


section \<open>Facts about the loops\<close>

lemma str_in_sublist: "str_in kw s = sublist kw s"
  by (induction s) (simp_all add: sublist_Cons_right)

lemma in_map_filter: "y \<in> set (List.map_filter f xs) \<longleftrightarrow> (\<exists>x \<in> set xs. f x = Some y)"
  by (induction xs) (auto split: option.splits)

lemma match_entry_SomeD:
  assumes "match_entry domain_name score primary_source conf base iv = Some c"
  shows "fst c = iv"
    and "domain_accepts domain_name (domain iv)"
    and "relevance_score (lower (source_category iv)) primary_source \<noteq> 0"
    and "final_priority c = float_sub (float_of_int (base + (priority_rank iv - 1)))
           (truediv (relevance_score (lower (source_category iv)) primary_source) 50)"
    and "reason c = reason_string domain_name score conf (lower (source_category iv))"
  using assms
  by (auto simp: match_entry_def Let_def final_priority_def reason_def split: if_splits)

lemma in_match_domain:
  "c \<in> set (match_domain g interventions sd (domain_key, domain_name)) \<longleftrightarrow>
     MODERATE_SCORE_THRESHOLD g \<le> get_or (scores sd) domain_key 0 \<and>
     (\<exists>iv \<in> set interventions.
        match_entry domain_name (get_or (scores sd) domain_key 0)
          (lower (get_or (primary_sources sd) domain_key []))
          (lower (get_or (confidence sd) domain_key ''low''))
          (base_priority g (get_or (scores sd) domain_key 0)
             (lower (get_or (confidence sd) domain_key ''low''))) iv = Some c)"
  by (auto simp: match_domain_def Let_def in_map_filter)

lemma in_all_matches:
  "c \<in> set (all_matches g interventions sd) \<longleftrightarrow>
     (\<exists>item \<in> set domain_map. c \<in> set (match_domain g interventions sd item))"
  by (auto simp: all_matches_def)

lemma output_subset:
  "set (match_interventions_for_patient g interventions sd) \<subseteq> set (all_matches g interventions sd)"
proof -
  have "set (slice_to n xs) \<subseteq> set xs" for n and xs :: "candidate list"
    by (auto simp: slice_to_def dest: in_set_takeD)
  from this[of "MAX_INTERVENTIONS_PER_PATIENT g" "sort_key final_priority (all_matches g interventions sd)"]
  show ?thesis
    by (simp add: match_interventions_for_patient_def)
qed

text \<open>Every returned tuple was appended in the iteration of some item of \<open>domain_map\<close>.\<close>

lemma output_origin:
  assumes "c \<in> set (match_interventions_for_patient g interventions sd)"
  obtains domain_key domain_name
  where "(domain_key, domain_name) \<in> set domain_map"
    and "c \<in> set (match_domain g interventions sd (domain_key, domain_name))"
proof -
  from assms output_subset have "c \<in> set (all_matches g interventions sd)"
    by blast
  then obtain item where "item \<in> set domain_map" "c \<in> set (match_domain g interventions sd item)"
    by (auto simp: in_all_matches)
  with that[of "fst item" "snd item"] show thesis
    by simp
qed

lemma distinct_normal_names:
  "distinct (map (\<lambda>item. replace CHR ''-'' CHR '' '' (snd item)) domain_map)"
  by (simp add: domain_map_def replace_def)

lemma replace_idem:
  "replace CHR ''-'' CHR '' '' (replace CHR ''-'' CHR '' '' s) = replace CHR ''-'' CHR '' '' s"
  by (simp add: replace_def)

lemma domain_accepts_normal:
  "domain_accepts domain_name (Some d) \<Longrightarrow>
     replace CHR ''-'' CHR '' '' d = replace CHR ''-'' CHR '' '' domain_name"
  by (auto simp: domain_accepts_def replace_idem)

text \<open>No domain string is accepted in the iterations of two different items.\<close>

lemma accepted_by_one_domain:
  assumes "item \<in> set domain_map" "item' \<in> set domain_map"
    and "domain_accepts (snd item) d" "domain_accepts (snd item') d"
  shows "item = item'"
proof -
  from assms(3) obtain s where d: "d = Some s"
    by (auto simp: domain_accepts_def)
  from assms(3,4)
  have "replace CHR ''-'' CHR '' '' (snd item) = replace CHR ''-'' CHR '' '' (snd item')"
    unfolding d by (metis domain_accepts_normal)
  with distinct_normal_names assms(1,2) show ?thesis
    by (metis (mono_tags, lifting) distinct_map inj_onD)
qed


lemma replace_no_space:
  "replace CHR ''-'' CHR '' '' d = s \<Longrightarrow> CHR '' '' \<notin> set s \<Longrightarrow> d = s"
  by (induction d arbitrary: s) (auto simp: replace_def split: if_splits)

lemma replace_one_space:
  assumes "replace CHR ''-'' CHR '' '' d = pre @ CHR '' '' # post"
    and "CHR '' '' \<notin> set pre" "CHR '' '' \<notin> set post"
  shows "d = pre @ CHR ''-'' # post \<or> d = pre @ CHR '' '' # post"
proof -
  from assms(1) obtain d1 x d2 where d: "d = d1 @ x # d2"
    and d1: "replace CHR ''-'' CHR '' '' d1 = pre"
    and x: "(if x = CHR ''-'' then CHR '' '' else x) = CHR '' ''"
    and d2: "replace CHR ''-'' CHR '' '' d2 = post"
    unfolding replace_def by (auto simp: map_eq_append_conv map_eq_Cons_conv)
  from d1 assms(2) have "d1 = pre" by (rule replace_no_space)
  moreover from d2 assms(3) have "d2 = post" by (rule replace_no_space)
  moreover from x have "x = CHR ''-'' \<or> x = CHR '' ''" by (simp split: if_splits)
  ultimately show ?thesis using d by auto
qed

lemma normal_form_accepted:
  assumes "(domain_key, domain_name) \<in> set domain_map"
    and "replace CHR ''-'' CHR '' '' d = replace CHR ''-'' CHR '' '' domain_name"
  shows "domain_accepts domain_name (Some d)"
proof -
  consider (plain) "CHR ''-'' \<notin> set domain_name" "CHR '' '' \<notin> set domain_name"
    | (food) "domain_name = ''Mycotoxins'' @ CHR ''-'' # ''Food''"
    | (water) "domain_name = ''Mycotoxins'' @ CHR ''-'' # ''WaterDamage''"
    using assms(1) by (auto simp: domain_map_def)
  then show ?thesis
  proof cases
    case plain
    then have n: "replace CHR ''-'' CHR '' '' domain_name = domain_name"
      unfolding replace_def by (intro map_idI) auto
    with assms(2) plain(2) have "d = domain_name"
      by (simp add: replace_no_space)
    then show ?thesis by (simp add: domain_accepts_def)
  next
    case food
    have "replace CHR ''-'' CHR '' '' d = ''Mycotoxins'' @ CHR '' '' # ''Food''"
      using assms(2) unfolding food by (simp add: replace_def)
    then have "d = ''Mycotoxins'' @ CHR ''-'' # ''Food'' \<or> d = ''Mycotoxins'' @ CHR '' '' # ''Food''"
      by (rule replace_one_space) simp_all
    then show ?thesis unfolding food by (auto simp: domain_accepts_def replace_def)
  next
    case water
    have "replace CHR ''-'' CHR '' '' d = ''Mycotoxins'' @ CHR '' '' # ''WaterDamage''"
      using assms(2) unfolding water by (simp add: replace_def)
    then have "d = ''Mycotoxins'' @ CHR ''-'' # ''WaterDamage'' \<or> d = ''Mycotoxins'' @ CHR '' '' # ''WaterDamage''"
      by (rule replace_one_space) simp_all
    then show ?thesis unfolding water by (auto simp: domain_accepts_def replace_def)
  qed
qed


text \<open>Every returned tuple is what the loop body makes of its own entry.\<close>

lemma output_entry:
  assumes "c \<in> set (match_interventions_for_patient g interventions sd)"
  obtains domain_key domain_name
  where "(domain_key, domain_name) \<in> set domain_map"
    and "MODERATE_SCORE_THRESHOLD g \<le> get_or (scores sd) domain_key 0"
    and "fst c \<in> set interventions"
    and "match_entry domain_name (get_or (scores sd) domain_key 0)
          (lower (get_or (primary_sources sd) domain_key []))
          (lower (get_or (confidence sd) domain_key ''low''))
          (base_priority g (get_or (scores sd) domain_key 0)
             (lower (get_or (confidence sd) domain_key ''low''))) (fst c) = Some c"
proof -
  from assms obtain k n where item: "(k, n) \<in> set domain_map"
    and c: "c \<in> set (match_domain g interventions sd (k, n))"
    by (rule output_origin)
  from c obtain iv where iv: "iv \<in> set interventions"
    and m: "match_entry n (get_or (scores sd) k 0)
          (lower (get_or (primary_sources sd) k []))
          (lower (get_or (confidence sd) k ''low''))
          (base_priority g (get_or (scores sd) k 0)
             (lower (get_or (confidence sd) k ''low''))) iv = Some c"
    by (auto simp: in_match_domain)
  from match_entry_SomeD(1)[OF m] have "iv = fst c"
    by simp
  with item c iv m that[of k n] show thesis
    by (simp add: in_match_domain)
qed


text \<open>Within one domain the candidates follow the catalog.\<close>

lemma match_domain_catalog_order:
  "subseq (map fst (match_domain g interventions sd item)) interventions"
proof -
  have "subseq (map fst (List.map_filter (match_entry n s p cf b) ivs)) ivs"
    for n s p cf b and ivs :: "intervention list"
  proof (induction ivs)
    case Nil
    show ?case by simp
  next
    case (Cons iv ivs)
    show ?case
    proof (cases "match_entry n s p cf b iv")
      case None
      with Cons show ?thesis by (simp add: list_emb_Cons)
    next
      case (Some c)
      then have "fst c = iv" by (rule match_entry_SomeD(1))
      with Some Cons show ?thesis by simp
    qed
  qed
  then show ?thesis
    by (simp add: match_domain_def Let_def)
qed

text \<open>The tiers of the records depend on the positions only.\<close>

lemma priority_assignment_rows:
  "map priority (map (assignment_for patient report date) (List.enumerate n ms))
     = map priority_tier [n ..< n + length ms]"
  by (induction ms arbitrary: n) (simp_all add: assignment_for_def upt_rec split: prod.splits)


text \<open>The relevance of a returned tuple is 100 or 50, and its priority is an integer.\<close>

lemma match_entry_relevance:
  assumes "match_entry domain_name score primary_source conf base iv = Some c"
  shows "relevance_score (lower (source_category iv)) primary_source = 50
         \<or> relevance_score (lower (source_category iv)) primary_source = 100"
  using match_entry_SomeD(3)[OF assms] by (simp add: relevance_score_def split: if_splits)

lemma final_priority_integral:
  assumes "c \<in> set (match_interventions_for_patient g interventions sd)"
  shows "final_priority c \<in> \<int>"
proof -
  from assms obtain k n where m: "match_entry n (get_or (scores sd) k 0)
          (lower (get_or (primary_sources sd) k []))
          (lower (get_or (confidence sd) k ''low''))
          (base_priority g (get_or (scores sd) k 0)
             (lower (get_or (confidence sd) k ''low''))) (fst c) = Some c"
    by (rule output_entry)
  show ?thesis
    unfolding match_entry_SomeD(4)[OF m]
    by (rule priority_arith_int) (rule match_entry_relevance[OF m])
qed

lemma base_priority_range: "1 \<le> base_priority g score conf \<and> base_priority g score conf \<le> 3"
  by (simp add: base_priority_def)


section \<open>Lower-casing and title-casing\<close>

lemma lower_char_other: "c \<notin> set ascii_uppercase \<Longrightarrow> lower_char c = c"
proof -
  assume "c \<notin> set ascii_uppercase"
  moreover have "length ascii_uppercase = length ascii_lowercase"
    by (simp add: ascii_uppercase_def ascii_lowercase_def)
  ultimately have "map_of (zip ascii_uppercase ascii_lowercase) c = None"
    by (metis map_of_zip_is_None)
  then show ?thesis
    by (simp add: lower_char_def)
qed

lemma lower_char_letter:
  assumes "c \<in> set ascii_uppercase"
  shows "lower_char (lower_char c) = lower_char c \<and> upper_char (lower_char c) = upper_char c
         \<and> is_cased (lower_char c) \<and> is_cased c \<and> lower_char c \<noteq> CHR ''_'' \<and> c \<noteq> CHR ''_''"
  using assms
  apply (simp only: ascii_uppercase_def list.set insert_iff empty_iff)
  apply (elim disjE FalseE)
  apply (simp_all add: lower_char_def upper_char_def is_cased_def ascii_uppercase_def ascii_lowercase_def)
  done

lemma lower_char_idem: "lower_char (lower_char c) = lower_char c"
  using lower_char_letter[of c] lower_char_other[of c] by (cases "c \<in> set ascii_uppercase") simp_all

lemma upper_lower_char: "upper_char (lower_char c) = upper_char c"
  using lower_char_letter[of c] lower_char_other[of c] by (cases "c \<in> set ascii_uppercase") simp_all

lemma is_cased_lower_char: "is_cased (lower_char c) = is_cased c"
  using lower_char_letter[of c] lower_char_other[of c] by (cases "c \<in> set ascii_uppercase") simp_all

lemma lower_char_underscore: "lower_char c = CHR ''_'' \<longleftrightarrow> c = CHR ''_''"
  using lower_char_letter[of c] lower_char_other[of c] by (cases "c \<in> set ascii_uppercase") simp_all

lemma title_from_lower: "title_from p (lower s) = title_from p s"
  by (induction s arbitrary: p)
     (simp_all add: lower_def lower_char_idem upper_lower_char is_cased_lower_char)

lemma replace_lower: "replace CHR ''_'' CHR '' '' (lower s) = lower (replace CHR ''_'' CHR '' '' s)"
proof -
  have "lower_char CHR '' '' = CHR '' ''"
    by (simp add: lower_char_def ascii_uppercase_def ascii_lowercase_def)
  then show ?thesis
    by (simp add: replace_def lower_def lower_char_underscore)
qed

lemma title_replace_lower:
  "title (replace CHR ''_'' CHR '' '' (lower s)) = title (replace CHR ''_'' CHR '' '' s)"
  by (simp add: title_def replace_lower title_from_lower)

lemma lower_Nil_iff: "lower s = [] \<longleftrightarrow> s = []"
  by (simp add: lower_def)


text \<open>The string operations on a few inputs.\<close>

lemma format_1f_examples:
  "format_1f 8 = ''8.0''" "format_1f 10 = ''10.0''" "format_1f (33 / 4) = ''8.2''"
  "format_1f (35 / 4) = ''8.8''" "format_1f (699 / 100) = ''7.0''" "format_1f (- 1 / 4) = ''-0.2''"
  by code_simp+

lemma split_examples:
  "split ''rice'' = [''rice'']"
  "split ''  well_water   pipes '' = [''well_water'', ''pipes'']"
  "split (''leafy'' @ [CHR 0x09, CHR 0x0A] @ ''greens'') = [''leafy'', ''greens'']"
  "split ''   '' = []"
  by (simp_all add: split_def is_space_def whitespace_def)

lemma title_examples:
  "title ''well water'' = ''Well Water''" "title ''pre 1978 home'' = ''Pre 1978 Home''"
  "title ''hVAC x2y'' = ''Hvac X2Y''"
  by (simp_all add: title_def lower_char_def upper_char_def is_cased_def
      ascii_uppercase_def ascii_lowercase_def)


section \<open>Example inputs\<close>

text \<open>
  A catalog entry with the given domain, source category and priority rank, the other
  fields as \<^verbatim>\<open>_load_interventions\<close> fills them in; and a score dictionary with the given
  scores, primary sources and confidences.
\<close>

definition catalog_entry :: "string \<Rightarrow> string \<Rightarrow> int \<Rightarrow> intervention" where
  "catalog_entry d sc rank =
     \<lparr> record_id = ''recINT1'', intervention_id = Some ''INT-001'', domain = Some d,
       source_category = sc, intervention_name = Some ''Example'', priority_rank = rank,
       difficulty_level = ''Moderate'', expected_reduction_percent = 0,
       estimated_cost = ''$51-200'' \<rparr>"

definition score_dict ::
  "(string \<rightharpoonup> rat) \<Rightarrow> (string \<rightharpoonup> string) \<Rightarrow> (string \<rightharpoonup> string) \<Rightarrow> score_data" where
  "score_dict sc ps cf =
     \<lparr> score_record_id = ''recS1'', patient_id = Some ''P1'', report_id = ''R1'',
       survey_id = Some ''S1'', scores = sc, primary_sources = ps, confidence = cf \<rparr>"

lemmas matcher_eval =
  match_interventions_for_patient_def all_matches_def match_domain_def match_entry_def
  domain_map_def domain_accepts_def relevance_score_def reason_string_def base_priority_def
  get_or_def slice_to_def lower_def lower_char_def upper_char_def is_cased_def
  ascii_uppercase_def ascii_lowercase_def replace_def title_def split_def is_space_def
  whitespace_def format_1f_def round_half_even_def digit_char_def digits.simps
  final_priority_def reason_def catalog_entry_def score_dict_def
  high_threshold moderate_threshold max_interventions Let_def priority_arith_exact

text \<open>
  A score record of report R1 with a score and a confidence for one domain, named by the
  prefix of its columns.
\<close>

definition score_row :: "string \<Rightarrow> rat \<Rightarrow> string \<Rightarrow> airtable_record" where
  "score_row key score conf =
     \<lparr> airtable_id = ''recS1'',
       text_fields = [''report_id'' \<mapsto> ''R1'', ''patient_id'' \<mapsto> ''P1'',
                      key @ ''_confidence'' \<mapsto> conf],
       number_fields = [key @ ''_source_score'' \<mapsto> score] \<rparr>"

lemmas ingest_eval =
  get_unprocessed_scores_def processed_report_ids_def unprocessed_entry_def score_row_def


section \<open>The cap on the number of matches\<close>

text \<open>
  C1. Whatever the catalog and the score record, the matcher returns at most 10
  (\<open>MAX_INTERVENTIONS_PER_PATIENT\<close>) candidates, so at most 10 assignments are written for
  one score record.
\<close>

theorem at_most_ten_candidates:
  "length (match_interventions_for_patient module_globals interventions sd) \<le> 10
   \<and> snd (create_intervention_assignments create patient report date
            (match_interventions_for_patient module_globals interventions sd)) \<le> 10"
proof
  show len: "length (match_interventions_for_patient module_globals interventions sd) \<le> 10"
    by (simp add: match_interventions_for_patient_def slice_to_def max_interventions)
  have "length (filter create (assignment_rows patient report date ms)) \<le> length ms" for ms
    using length_filter_le[of create "assignment_rows patient report date ms"]
    by (simp add: assignment_rows_def enumerate_eq_zip)
  from this[of "match_interventions_for_patient module_globals interventions sd"] len
  show "snd (create_intervention_assignments create patient report date
               (match_interventions_for_patient module_globals interventions sd)) \<le> 10"
    by (simp add: create_intervention_assignments_def Let_def)
qed

section \<open>The threshold gate\<close>

text \<open>
  C2. For every score record and each of the 11 domains of \<open>domain_map\<close>: when the
  domain's score is below 5 (\<open>MODERATE_SCORE_THRESHOLD\<close>), the iteration for that domain
  appends nothing, and no returned candidate is an entry of that domain (an entry whose
  domain the catalog filter of that domain accepts).
\<close>

theorem below_threshold_domain_yields_nothing:
  assumes "(domain_key, domain_name) \<in> set domain_map"
    and "get_or (scores sd) domain_key 0 < 5"
  shows "match_domain module_globals interventions sd (domain_key, domain_name) = [] \<and>
         (\<forall>c \<in> set (match_interventions_for_patient module_globals interventions sd).
            \<not> domain_accepts domain_name (domain (fst c)))"
proof
  show "match_domain module_globals interventions sd (domain_key, domain_name) = []"
    using assms(2) by (simp add: match_domain_def moderate_threshold)
next
  show "\<forall>c \<in> set (match_interventions_for_patient module_globals interventions sd).
          \<not> domain_accepts domain_name (domain (fst c))"
  proof
    fix c
    assume "c \<in> set (match_interventions_for_patient module_globals interventions sd)"
    then obtain k n where item: "(k, n) \<in> set domain_map"
      and c: "c \<in> set (match_domain module_globals interventions sd (k, n))"
      by (rule output_origin)
    from c have score: "5 \<le> get_or (scores sd) k 0"
      by (simp add: in_match_domain moderate_threshold)
    from c obtain iv where "match_entry n (get_or (scores sd) k 0)
          (lower (get_or (primary_sources sd) k []))
          (lower (get_or (confidence sd) k ''low''))
          (base_priority module_globals (get_or (scores sd) k 0)
             (lower (get_or (confidence sd) k ''low''))) iv = Some c"
      by (auto simp: in_match_domain)
    then have acc: "domain_accepts n (domain (fst c))"
      using match_entry_SomeD(1,2) by metis
    show "\<not> domain_accepts domain_name (domain (fst c))"
    proof
      assume "domain_accepts domain_name (domain (fst c))"
      with acc item assms(1) have "(k, n) = (domain_key, domain_name)"
        using accepted_by_one_domain[of "(k, n)" "(domain_key, domain_name)"] by simp
      with score assms(2) show False by simp
    qed
  qed
qed

theorem below_threshold_domain_yields_nothing_witness:
  "(''arsenic'', ''Arsenic'') \<in> set domain_map
   \<and> get_or (scores (score_dict [''arsenic'' \<mapsto> 4, ''mercury'' \<mapsto> 8] Map.empty Map.empty)) ''arsenic'' 0 < 5
   \<and> match_domain module_globals
        [catalog_entry ''Arsenic'' [] 1, catalog_entry ''Mercury'' [] 1]
        (score_dict [''arsenic'' \<mapsto> 4, ''mercury'' \<mapsto> 8] Map.empty Map.empty)
        (''arsenic'', ''Arsenic'') = []
   \<and> match_interventions_for_patient module_globals
        [catalog_entry ''Arsenic'' [] 1, catalog_entry ''Mercury'' [] 1]
        (score_dict [''arsenic'' \<mapsto> 4, ''mercury'' \<mapsto> 8] Map.empty Map.empty)
       = [(catalog_entry ''Mercury'' [] 1, 2, ''Mercury score: 8.0/10'')]
   \<and> \<not> domain_accepts ''Arsenic'' (domain (catalog_entry ''Mercury'' [] 1))"
proof -
  let ?sd = "score_dict [''arsenic'' \<mapsto> 4, ''mercury'' \<mapsto> 8] Map.empty Map.empty"
  let ?cat = "[catalog_entry ''Arsenic'' [] 1, catalog_entry ''Mercury'' [] 1]"
  have item: "(''arsenic'', ''Arsenic'') \<in> set domain_map"
    by (simp add: domain_map_def)
  have low: "get_or (scores ?sd) ''arsenic'' 0 < 5"
    by (simp add: get_or_def score_dict_def)
  have out: "match_interventions_for_patient module_globals ?cat ?sd
             = [(catalog_entry ''Mercury'' [] 1, 2, ''Mercury score: 8.0/10'')]"
    by (simp add: matcher_eval)
  from below_threshold_domain_yields_nothing[OF item low, of ?cat] item low out
  show ?thesis
    by simp
qed

section \<open>Base priority of an ingested record\<close>

text \<open>
  The dictionary built for an ingested record carries the record's confidence for eight
  domains. It has none for parabens, mycotoxins_food and mycotoxins_water_damage, so the
  matcher takes "low" for them.
\<close>

lemma ingested_confidence_kept:
  assumes "k \<in> set [''arsenic'', ''mercury'', ''lead'', ''cadmium'', ''pfas'', ''phthalates'',
                      ''pesticides'', ''vocs'']"
  shows "confidence (unprocessed_entry score_record rid) k
           = Some (get_or (text_fields score_record) (k @ ''_confidence'') ''low'')"
  using assms by (auto simp: unprocessed_entry_def Let_def)

lemma ingested_confidence_keys:
  assumes "sd \<in> set (get_unprocessed_scores all_scores existing_assignments)"
  shows "confidence sd ''parabens'' = None \<and> confidence sd ''mycotoxins_food'' = None
         \<and> confidence sd ''mycotoxins_water_damage'' = None"
  using assms
  by (auto simp: get_unprocessed_scores_def unprocessed_entry_def in_map_filter Let_def
      split: option.splits if_splits)

text \<open>
  C3. For an ingested record, the base priority of a domain of score at least 7 should be 1
  when the record's confidence for the domain is high. A record with parabens at 8.0 and
  parabens confidence high gets base priority 3 (final priority 3 + 0 - 1 = 2 for a generic
  entry of rank 1, and no confidence in the reason), where the same record for arsenic
  gets base priority 1 (final priority 0).
\<close>

theorem parabens_confidence_dropped:
  "map (match_interventions_for_patient module_globals [catalog_entry ''Parabens'' [] 1])
     (get_unprocessed_scores [score_row ''parabens'' 8 ''high''] [])
     = [[(catalog_entry ''Parabens'' [] 1, 2, ''Parabens score: 8.0/10'')]]
   \<and> map (match_interventions_for_patient module_globals [catalog_entry ''Arsenic'' [] 1])
     (get_unprocessed_scores [score_row ''arsenic'' 8 ''high''] [])
     = [[(catalog_entry ''Arsenic'' [] 1, 0, ''Arsenic score: 8.0/10 (high confidence)'')]]"
  by (simp add: ingest_eval matcher_eval)


section \<open>The catalog filter\<close>

text \<open>
  C4. For each of the 11 domains, the catalog filter accepts an entry's domain exactly when
  it has the same normal form as the domain's name, the normal form of a string being the
  string with every hyphen replaced by a space: the hyphenated and the space-separated
  spelling of a name are accepted alike, an entry with no domain or with a domain of another
  normal form is not, and every candidate the domain's iteration appends is an accepted entry.
\<close>

theorem domain_spelling_equivalence:
  assumes "(domain_key, domain_name) \<in> set domain_map"
  shows "(domain_accepts domain_name (Some d) \<longleftrightarrow>
            replace CHR ''-'' CHR '' '' d = replace CHR ''-'' CHR '' '' domain_name)
         \<and> \<not> domain_accepts domain_name None
         \<and> (\<forall>c \<in> set (match_domain module_globals interventions sd (domain_key, domain_name)).
               domain_accepts domain_name (domain (fst c)))"
proof (intro conjI)
  show "domain_accepts domain_name (Some d) \<longleftrightarrow>
          replace CHR ''-'' CHR '' '' d = replace CHR ''-'' CHR '' '' domain_name"
    using assms normal_form_accepted domain_accepts_normal by blast
next
  show "\<not> domain_accepts domain_name None"
    by (simp add: domain_accepts_def)
next
  show "\<forall>c \<in> set (match_domain module_globals interventions sd (domain_key, domain_name)).
          domain_accepts domain_name (domain (fst c))"
    using match_entry_SomeD(1,2) by (fastforce simp: in_match_domain)
qed

theorem domain_spelling_equivalence_witness:
  "(''mycotoxins_food'', ''Mycotoxins-Food'') \<in> set domain_map
   \<and> domain_accepts ''Mycotoxins-Food'' (Some ''Mycotoxins-Food'')
   \<and> domain_accepts ''Mycotoxins-Food'' (Some ''Mycotoxins Food'')
   \<and> \<not> domain_accepts ''Mycotoxins-Food'' (Some ''Mycotoxins-WaterDamage'')
   \<and> match_domain module_globals
        [catalog_entry ''Mycotoxins-Food'' [] 1, catalog_entry ''Mycotoxins_Food'' [] 1,
         catalog_entry ''Mycotoxins Food'' [] 2]
        (score_dict [''mycotoxins_food'' \<mapsto> 6] Map.empty Map.empty)
        (''mycotoxins_food'', ''Mycotoxins-Food'')
       = [(catalog_entry ''Mycotoxins-Food'' [] 1, 2, ''Mycotoxins Food score: 6.0/10''),
          (catalog_entry ''Mycotoxins Food'' [] 2, 3, ''Mycotoxins Food score: 6.0/10'')]"
proof -
  have item: "(''mycotoxins_food'', ''Mycotoxins-Food'') \<in> set domain_map"
    by (simp add: domain_map_def)
  note eq = domain_spelling_equivalence[OF item, THEN conjunct1]
  have "domain_accepts ''Mycotoxins-Food'' (Some ''Mycotoxins-Food'')"
    by (simp add: eq)
  moreover have "domain_accepts ''Mycotoxins-Food'' (Some ''Mycotoxins Food'')"
    by (simp add: eq replace_def)
  moreover have "\<not> domain_accepts ''Mycotoxins-Food'' (Some ''Mycotoxins-WaterDamage'')"
    by (simp add: eq replace_def)
  moreover have "match_domain module_globals
        [catalog_entry ''Mycotoxins-Food'' [] 1, catalog_entry ''Mycotoxins_Food'' [] 1,
         catalog_entry ''Mycotoxins Food'' [] 2]
        (score_dict [''mycotoxins_food'' \<mapsto> 6] Map.empty Map.empty)
        (''mycotoxins_food'', ''Mycotoxins-Food'')
       = [(catalog_entry ''Mycotoxins-Food'' [] 1, 2, ''Mycotoxins Food score: 6.0/10''),
          (catalog_entry ''Mycotoxins Food'' [] 2, 3, ''Mycotoxins Food score: 6.0/10'')]"
    by (simp add: matcher_eval)
  ultimately show ?thesis
    using item by simp
qed


section \<open>Relevance\<close>

text \<open>
  C5. For an entry that passes the catalog filter of a domain, the relevance is 100 when
  its source category is not empty and one of the keywords (the whitespace-separated words
  of the lower-cased source category) occurs in the lower-cased primary source of the
  domain, 50 when the source category is empty, and 0 otherwise; an entry of relevance 0
  is not among the returned candidates.
\<close>

theorem relevance_and_exclusion:
  assumes "(domain_key, domain_name) \<in> set domain_map"
    and "domain_accepts domain_name (domain iv)"
  shows "relevance_score (lower (source_category iv)) (lower (get_or (primary_sources sd) domain_key []))
           = (if source_category iv \<noteq> [] \<and>
                 (\<exists>keyword \<in> set (split (lower (source_category iv))).
                     sublist keyword (lower (get_or (primary_sources sd) domain_key [])))
              then 100
              else if source_category iv = [] then 50
              else 0)
         \<and> (relevance_score (lower (source_category iv)) (lower (get_or (primary_sources sd) domain_key [])) = 0
              \<longrightarrow> iv \<notin> fst ` set (match_interventions_for_patient module_globals interventions sd))"
proof
  show "relevance_score (lower (source_category iv)) (lower (get_or (primary_sources sd) domain_key []))
           = (if source_category iv \<noteq> [] \<and>
                 (\<exists>keyword \<in> set (split (lower (source_category iv))).
                     sublist keyword (lower (get_or (primary_sources sd) domain_key [])))
              then 100
              else if source_category iv = [] then 50
              else 0)"
    by (simp add: relevance_score_def list_ex_iff str_in_sublist lower_def)
next
  show "relevance_score (lower (source_category iv)) (lower (get_or (primary_sources sd) domain_key [])) = 0
          \<longrightarrow> iv \<notin> fst ` set (match_interventions_for_patient module_globals interventions sd)"
  proof (intro impI notI)
    assume zero: "relevance_score (lower (source_category iv))
                    (lower (get_or (primary_sources sd) domain_key [])) = 0"
    assume "iv \<in> fst ` set (match_interventions_for_patient module_globals interventions sd)"
    then obtain c where c: "c \<in> set (match_interventions_for_patient module_globals interventions sd)"
      and iv: "fst c = iv"
      by auto
    from c obtain k n where item: "(k, n) \<in> set domain_map"
      and cd: "c \<in> set (match_domain module_globals interventions sd (k, n))"
      by (rule output_origin)
    from cd obtain iv' where m: "match_entry n (get_or (scores sd) k 0)
          (lower (get_or (primary_sources sd) k []))
          (lower (get_or (confidence sd) k ''low''))
          (base_priority module_globals (get_or (scores sd) k 0)
             (lower (get_or (confidence sd) k ''low''))) iv' = Some c"
      by (auto simp: in_match_domain)
    from match_entry_SomeD(1)[OF m] iv have iv': "iv' = iv"
      by simp
    from match_entry_SomeD(2)[OF m] have "domain_accepts n (domain iv)"
      unfolding iv' .
    with assms item have "(k, n) = (domain_key, domain_name)"
      using accepted_by_one_domain[of "(k, n)" "(domain_key, domain_name)"] by simp
    with match_entry_SomeD(3)[OF m] zero iv' show False
      by simp
  qed
qed

theorem relevance_and_exclusion_witness:
  "(''arsenic'', ''Arsenic'') \<in> set domain_map
   \<and> domain_accepts ''Arsenic'' (domain (catalog_entry ''Arsenic'' ''well_water pipes'' 1))
   \<and> relevance_score (lower (source_category (catalog_entry ''Arsenic'' ''well_water pipes'' 1)))
        (lower (get_or (primary_sources
           (score_dict [''arsenic'' \<mapsto> 8] [''arsenic'' \<mapsto> ''I eat Rice daily''] Map.empty)) ''arsenic'' [])) = 0
   \<and> catalog_entry ''Arsenic'' ''well_water pipes'' 1 \<notin>
        fst ` set (match_interventions_for_patient module_globals
          [catalog_entry ''Arsenic'' ''well_water pipes'' 1, catalog_entry ''Arsenic'' ''rice'' 1,
           catalog_entry ''Arsenic'' [] 1]
          (score_dict [''arsenic'' \<mapsto> 8] [''arsenic'' \<mapsto> ''I eat Rice daily''] Map.empty))
   \<and> relevance_score (lower ''Brown RICE'') (lower ''I eat Rice daily'') = 100
   \<and> relevance_score (lower []) (lower ''I eat Rice daily'') = 50"
proof -
  let ?sd = "score_dict [''arsenic'' \<mapsto> 8] [''arsenic'' \<mapsto> ''I eat Rice daily''] Map.empty"
  let ?e = "catalog_entry ''Arsenic'' ''well_water pipes'' 1"
  have item: "(''arsenic'', ''Arsenic'') \<in> set domain_map"
    by (simp add: domain_map_def)
  have acc: "domain_accepts ''Arsenic'' (domain ?e)"
    by (simp add: domain_accepts_def catalog_entry_def)
  have zero: "relevance_score (lower (source_category ?e))
                (lower (get_or (primary_sources ?sd) ''arsenic'' [])) = 0"
    by (simp add: matcher_eval)
  have hundred: "relevance_score (lower ''Brown RICE'') (lower ''I eat Rice daily'') = 100"
    by (simp add: matcher_eval)
  have fifty: "relevance_score (lower []) (lower ''I eat Rice daily'') = 50"
    by (simp add: matcher_eval)
  from relevance_and_exclusion[OF item acc, of ?sd, THEN conjunct2, rule_format, OF zero]
    item acc zero hundred fifty
  show ?thesis
    by simp
qed

section \<open>Final priority\<close>

text \<open>
  The final priority is not always the exact value of base priority + (rank - 1) -
  relevance / 50: for a generic entry of rank 9007199254740994 and a score of 6 the exact
  value is 9007199254740995, which is no double, and the tuple carries 9007199254740996.
  And no returned candidate has a fractional priority: the rank is an integer and the
  relevance 100 or 50, so every final priority is an integer.
\<close>

theorem final_priority_counterexample:
  "map final_priority
     (match_interventions_for_patient module_globals
        [catalog_entry ''Arsenic'' [] 9007199254740994]
        (score_dict [''arsenic'' \<mapsto> 6] Map.empty Map.empty))
     = [9007199254740996]
   \<and> of_int (base_priority module_globals 6 ''low'') + (of_int 9007199254740994 - 1)
         - of_int (relevance_score [] []) / 50 = (9007199254740995 :: rat)
   \<and> \<not> (\<exists>interventions sd c.
           c \<in> set (match_interventions_for_patient module_globals interventions sd)
           \<and> final_priority c \<notin> \<int>)"
proof (intro conjI)
  show "map final_priority
     (match_interventions_for_patient module_globals
        [catalog_entry ''Arsenic'' [] 9007199254740994]
        (score_dict [''arsenic'' \<mapsto> 6] Map.empty Map.empty))
     = [9007199254740996]"
    by (simp add: matcher_eval rounding_examples(2))
  show "of_int (base_priority module_globals 6 ''low'') + (of_int 9007199254740994 - 1)
         - of_int (relevance_score [] []) / 50 = (9007199254740995 :: rat)"
    by (simp add: base_priority_def relevance_score_def high_threshold)
  show "\<not> (\<exists>interventions sd c.
           c \<in> set (match_interventions_for_patient module_globals interventions sd)
           \<and> final_priority c \<notin> \<int>)"
    using final_priority_integral by blast
qed

text \<open>
  C6, amended. Every returned candidate comes from a domain of score at least 5 and an
  entry of relevance 100 or 50. When the entry's priority rank is below 2 to the 52 in
  magnitude (the ranks of the interventions table are 1 to 5), its final priority is exactly
  the base priority plus the rank minus 1, minus the relevance divided by 50, with no
  floor, so that it can be negative; it is an integer; and when the score is at least 7,
  the confidence high, the rank 1 and the relevance 100, it is -1.
\<close>

theorem final_priority_exact:
  assumes "c \<in> set (match_interventions_for_patient module_globals interventions sd)"
    and "\<bar>priority_rank (fst c)\<bar> < 2 ^ 52"
  shows "\<exists>(domain_key, domain_name) \<in> set domain_map.
           let score = get_or (scores sd) domain_key 0;
               conf = lower (get_or (confidence sd) domain_key ''low'');
               relevance = relevance_score (lower (source_category (fst c)))
                             (lower (get_or (primary_sources sd) domain_key []))
           in fst c \<in> set interventions \<and> domain_accepts domain_name (domain (fst c))
              \<and> 5 \<le> score \<and> (relevance = 100 \<or> relevance = 50)
              \<and> final_priority c =
                    of_int (base_priority module_globals score conf)
                    + (of_int (priority_rank (fst c)) - 1) - of_int relevance / 50
              \<and> final_priority c \<in> \<int>
              \<and> (if 7 \<le> score \<and> conf = ''high'' \<and> priority_rank (fst c) = 1 \<and> relevance = 100
                  then final_priority c = - 1 else True)"
proof -
  from assms(1) obtain k n where item: "(k, n) \<in> set domain_map"
    and score: "MODERATE_SCORE_THRESHOLD module_globals \<le> get_or (scores sd) k 0"
    and iv: "fst c \<in> set interventions"
    and m: "match_entry n (get_or (scores sd) k 0)
          (lower (get_or (primary_sources sd) k []))
          (lower (get_or (confidence sd) k ''low''))
          (base_priority module_globals (get_or (scores sd) k 0)
             (lower (get_or (confidence sd) k ''low''))) (fst c) = Some c"
    by (rule output_entry)
  let ?rel = "relevance_score (lower (source_category (fst c)))
                (lower (get_or (primary_sources sd) k []))"
  let ?base = "base_priority module_globals (get_or (scores sd) k 0)
                 (lower (get_or (confidence sd) k ''low''))"
  have rel: "?rel = 50 \<or> ?rel = 100"
    by (rule match_entry_relevance[OF m])
  have "\<bar>priority_rank (fst c)\<bar> < 4503599627370496"
    using assms(2) by simp
  with base_priority_range[of module_globals "get_or (scores sd) k 0"
      "lower (get_or (confidence sd) k ''low'')"]
  have small: "\<bar>?base + (priority_rank (fst c) - 1)\<bar> < 9007199254740990"
    by linarith
  have "final_priority c = of_int (?base + (priority_rank (fst c) - 1) - ?rel div 50)"
    unfolding match_entry_SomeD(4)[OF m] using rel small by (rule priority_arith_exact)
  with rel have fp: "final_priority c =
      of_int ?base + (of_int (priority_rank (fst c)) - 1) - of_int ?rel / 50"
    by auto
  have int: "final_priority c \<in> \<int>"
    using assms(1) by (rule final_priority_integral)
  have top: "final_priority c = - 1"
    if "7 \<le> get_or (scores sd) k 0" "lower (get_or (confidence sd) k ''low'') = ''high''"
       "priority_rank (fst c) = 1" "?rel = 100"
    using that fp by (simp add: base_priority_def high_threshold)
  from rel have rel': "?rel = 100 \<or> ?rel = 50"
    by blast
  from item iv match_entry_SomeD(2)[OF m] score rel' fp int top show ?thesis
    by (intro bexI[of _ "(k, n)"]) (simp_all add: Let_def moderate_threshold)
qed

theorem final_priority_exact_witness:
  "(catalog_entry ''Arsenic'' ''rice'' 1, - 1, ''Arsenic score: 8.0/10 (high confidence) - Source: Rice'')
     \<in> set (match_interventions_for_patient module_globals [catalog_entry ''Arsenic'' ''rice'' 1]
          (score_dict [''arsenic'' \<mapsto> 8] [''arsenic'' \<mapsto> ''I eat rice daily'']
             [''arsenic'' \<mapsto> ''high'']))
   \<and> \<bar>priority_rank (catalog_entry ''Arsenic'' ''rice'' 1)\<bar> < 2 ^ 52
   \<and> final_priority
        (catalog_entry ''Arsenic'' ''rice'' 1, - 1, ''Arsenic score: 8.0/10 (high confidence) - Source: Rice'')
       = of_int (base_priority module_globals 8 ''high'') + (of_int 1 - 1) - of_int 100 / 50
   \<and> map final_priority
        (match_interventions_for_patient module_globals
          [catalog_entry ''Arsenic'' ''rice'' 3, catalog_entry ''Arsenic'' [] 1]
          (score_dict [''arsenic'' \<mapsto> 8] [''arsenic'' \<mapsto> ''I eat rice daily'']
             [''arsenic'' \<mapsto> ''high'']))
       = [0, 1]"
proof -
  let ?e = "catalog_entry ''Arsenic'' ''rice'' 1"
  let ?sd = "score_dict [''arsenic'' \<mapsto> 8] [''arsenic'' \<mapsto> ''I eat rice daily'']
               [''arsenic'' \<mapsto> ''high'']"
  let ?c = "(?e, - 1 :: rat, ''Arsenic score: 8.0/10 (high confidence) - Source: Rice'')"
  have mem: "?c \<in> set (match_interventions_for_patient module_globals [?e] ?sd)"
    by (simp add: matcher_eval)
  have rank: "\<bar>priority_rank (fst ?c)\<bar> < 2 ^ 52"
    by (simp add: catalog_entry_def)
  have two: "map final_priority
        (match_interventions_for_patient module_globals
          [catalog_entry ''Arsenic'' ''rice'' 3, catalog_entry ''Arsenic'' [] 1] ?sd)
       = [0, 1]"
    by (simp add: matcher_eval)
  from final_priority_exact[OF mem rank]
  obtain k n where item: "(k, n) \<in> set domain_map"
    and acc: "domain_accepts n (domain ?e)"
    and fp: "final_priority ?c =
               of_int (base_priority module_globals (get_or (scores ?sd) k 0)
                         (lower (get_or (confidence ?sd) k ''low'')))
               + (of_int (priority_rank ?e) - 1)
               - of_int (relevance_score (lower (source_category ?e))
                           (lower (get_or (primary_sources ?sd) k []))) / 50"
    by (auto simp: Let_def)
  have ars: "(''arsenic'', ''Arsenic'') \<in> set domain_map"
    by (simp add: domain_map_def)
  have "domain_accepts ''Arsenic'' (domain ?e)"
    by (simp add: domain_accepts_def catalog_entry_def)
  with acc item ars have "(k, n) = (''arsenic'', ''Arsenic'')"
    using accepted_by_one_domain[of "(k, n)" "(''arsenic'', ''Arsenic'')"] by simp
  then have k: "k = ''arsenic''"
    by simp
  have rel: "relevance_score (lower (source_category ?e))
               (lower (get_or (primary_sources ?sd) ''arsenic'' [])) = 100"
    by (simp add: matcher_eval)
  have "final_priority ?c
          = of_int (base_priority module_globals 8 ''high'') + (of_int 1 - 1) - of_int 100 / 50"
    using fp unfolding k rel
    by (simp add: get_or_def score_dict_def catalog_entry_def lower_def lower_char_def
        ascii_uppercase_def ascii_lowercase_def)
  moreover have "\<bar>priority_rank ?e\<bar> < 2 ^ 52"
    using rank by simp
  ultimately show ?thesis
    using mem two by (intro conjI)
qed


section \<open>Justification\<close>

text \<open>
  C9. The reason of every returned candidate is the domain name with hyphens replaced by
  spaces, then " score: ", the score with one decimal and "/10"; then
  " (<confidence> confidence)" exactly when the lower-cased confidence is not "low"; then
  " - Source: " and the source category, underscores replaced by spaces and title-cased,
  exactly when the source category is not empty. For arsenic at 8.0 with confidence high,
  primary source "I eat rice daily" and an entry of source category "rice" and rank 2, the
  one candidate has priority 0 and reason
  "Arsenic score: 8.0/10 (high confidence) - Source: Rice".
\<close>

theorem justification_string:
  assumes "c \<in> set (match_interventions_for_patient module_globals interventions sd)"
  shows "\<exists>(domain_key, domain_name) \<in> set domain_map.
           let score = get_or (scores sd) domain_key 0;
               conf = lower (get_or (confidence sd) domain_key ''low'');
               sc = source_category (fst c)
           in fst c \<in> set interventions \<and> domain_accepts domain_name (domain (fst c))
              \<and> 5 \<le> score
              \<and> reason c =
                    replace CHR ''-'' CHR '' '' domain_name @ '' score: '' @ format_1f score @ ''/10''
                    @ (if conf \<noteq> ''low'' then '' ('' @ conf @ '' confidence)'' else [])
                    @ (if sc \<noteq> [] then '' - Source: '' @ title (replace CHR ''_'' CHR '' '' sc) else [])"
proof -
  from assms obtain k n where item: "(k, n) \<in> set domain_map"
    and score: "MODERATE_SCORE_THRESHOLD module_globals \<le> get_or (scores sd) k 0"
    and iv: "fst c \<in> set interventions"
    and m: "match_entry n (get_or (scores sd) k 0)
          (lower (get_or (primary_sources sd) k []))
          (lower (get_or (confidence sd) k ''low''))
          (base_priority module_globals (get_or (scores sd) k 0)
             (lower (get_or (confidence sd) k ''low''))) (fst c) = Some c"
    by (rule output_entry)
  have "reason c = reason_string n (get_or (scores sd) k 0)
                     (lower (get_or (confidence sd) k ''low'')) (lower (source_category (fst c)))"
    by (rule match_entry_SomeD(5)[OF m])
  then have r: "reason c =
      replace CHR ''-'' CHR '' '' n @ '' score: '' @ format_1f (get_or (scores sd) k 0) @ ''/10''
      @ (if lower (get_or (confidence sd) k ''low'') \<noteq> ''low''
         then '' ('' @ lower (get_or (confidence sd) k ''low'') @ '' confidence)'' else [])
      @ (if source_category (fst c) \<noteq> []
         then '' - Source: '' @ title (replace CHR ''_'' CHR '' '' (source_category (fst c))) else [])"
    by (simp add: reason_string_def title_replace_lower lower_Nil_iff)
  from item iv match_entry_SomeD(2)[OF m] score r show ?thesis
    by (intro bexI[of _ "(k, n)"]) (simp_all add: Let_def moderate_threshold)
qed

theorem justification_string_witness:
  "match_interventions_for_patient module_globals [catalog_entry ''Arsenic'' ''rice'' 2]
     (score_dict [''arsenic'' \<mapsto> 8] [''arsenic'' \<mapsto> ''I eat rice daily'']
        [''arsenic'' \<mapsto> ''high''])
   = [(catalog_entry ''Arsenic'' ''rice'' 2, 0,
       ''Arsenic score: 8.0/10 (high confidence) - Source: Rice'')]
   \<and> reason (catalog_entry ''Arsenic'' ''rice'' 2, 0,
              ''Arsenic score: 8.0/10 (high confidence) - Source: Rice'')
       = replace CHR ''-'' CHR '' '' ''Arsenic'' @ '' score: '' @ format_1f 8 @ ''/10''
         @ '' ('' @ ''high'' @ '' confidence)''
         @ '' - Source: '' @ title (replace CHR ''_'' CHR '' '' ''rice'')"
proof -
  let ?e = "catalog_entry ''Arsenic'' ''rice'' 2"
  let ?sd = "score_dict [''arsenic'' \<mapsto> 8] [''arsenic'' \<mapsto> ''I eat rice daily'']
               [''arsenic'' \<mapsto> ''high'']"
  let ?c = "(?e, 0 :: rat, ''Arsenic score: 8.0/10 (high confidence) - Source: Rice'')"
  have out: "match_interventions_for_patient module_globals [?e] ?sd = [?c]"
    by (simp add: matcher_eval)
  then have mem: "?c \<in> set (match_interventions_for_patient module_globals [?e] ?sd)"
    by simp
  from justification_string[OF mem]
  obtain k n where item: "(k, n) \<in> set domain_map"
    and acc: "domain_accepts n (domain ?e)"
    and r: "reason ?c =
      replace CHR ''-'' CHR '' '' n @ '' score: '' @ format_1f (get_or (scores ?sd) k 0) @ ''/10''
      @ (if lower (get_or (confidence ?sd) k ''low'') \<noteq> ''low''
         then '' ('' @ lower (get_or (confidence ?sd) k ''low'') @ '' confidence)'' else [])
      @ (if source_category ?e \<noteq> []
         then '' - Source: '' @ title (replace CHR ''_'' CHR '' '' (source_category ?e)) else [])"
    by (auto simp: Let_def)
  have ars: "(''arsenic'', ''Arsenic'') \<in> set domain_map"
    by (simp add: domain_map_def)
  have "domain_accepts ''Arsenic'' (domain ?e)"
    by (simp add: domain_accepts_def catalog_entry_def)
  with acc item ars have "(k, n) = (''arsenic'', ''Arsenic'')"
    using accepted_by_one_domain[of "(k, n)" "(''arsenic'', ''Arsenic'')"] by simp
  then have k: "k = ''arsenic''" and n: "n = ''Arsenic''"
    by simp_all
  have conf: "lower (get_or (confidence ?sd) ''arsenic'' ''low'') = ''high''"
    by (simp add: get_or_def score_dict_def lower_def lower_char_def
        ascii_uppercase_def ascii_lowercase_def)
  have "reason ?c = replace CHR ''-'' CHR '' '' ''Arsenic'' @ '' score: '' @ format_1f 8 @ ''/10''
         @ '' ('' @ ''high'' @ '' confidence)''
         @ '' - Source: '' @ title (replace CHR ''_'' CHR '' '' ''rice'')"
    using r unfolding k n conf
    by (simp add: get_or_def score_dict_def catalog_entry_def)
  with out show ?thesis
    by (intro conjI)
qed

section \<open>Ranking\<close>

text \<open>
  C7. The returned list is in ascending order of final priority, and the sort is stable:
  for every priority value, the returned candidates of that priority are, in the same
  order, the first ones of that priority in the order of insertion. The order of insertion
  is the order of the 11 items of \<open>domain_map\<close> and, within one domain, the order of the
  catalog.
\<close>

theorem ranking_sorted_and_stable:
  "sorted (map final_priority (match_interventions_for_patient module_globals interventions sd))
   \<and> (\<forall>p. prefix
          (filter (\<lambda>c. final_priority c = p)
             (match_interventions_for_patient module_globals interventions sd))
          (filter (\<lambda>c. final_priority c = p) (all_matches module_globals interventions sd)))
   \<and> all_matches module_globals interventions sd
       = concat (map (match_domain module_globals interventions sd) domain_map)
   \<and> (\<forall>item. subseq (map fst (match_domain module_globals interventions sd item)) interventions)"
proof (intro conjI allI)
  let ?all = "all_matches module_globals interventions sd"
  have out: "match_interventions_for_patient module_globals interventions sd
             = take 10 (sort_key final_priority ?all)"
    by (simp add: match_interventions_for_patient_def slice_to_def max_interventions)
  have "sorted (take 10 (map final_priority (sort_key final_priority ?all)))"
    by (intro sorted_wrt_take) simp
  then show "sorted (map final_priority (match_interventions_for_patient module_globals interventions sd))"
    by (simp add: out take_map)
  fix p
  have "prefix (filter (\<lambda>c. final_priority c = p) (take 10 (sort_key final_priority ?all)))
          (filter (\<lambda>c. final_priority c = p) (sort_key final_priority ?all))"
    by (intro filter_mono_prefix take_is_prefix)
  then show "prefix (filter (\<lambda>c. final_priority c = p)
                      (match_interventions_for_patient module_globals interventions sd))
               (filter (\<lambda>c. final_priority c = p) ?all)"
    by (simp add: out sort_key_stable)
next
  show "all_matches module_globals interventions sd
          = concat (map (match_domain module_globals interventions sd) domain_map)"
    by (simp add: all_matches_def)
next
  fix item
  show "subseq (map fst (match_domain module_globals interventions sd item)) interventions"
    by (rule match_domain_catalog_order)
qed

lemma ranking_example:
  "map (\<lambda>c. (the (domain (fst c)), priority_rank (fst c), final_priority c))
     (match_interventions_for_patient module_globals
        [catalog_entry ''Mercury'' [] 3, catalog_entry ''Arsenic'' [] 3,
         catalog_entry ''Mercury'' [] 1, catalog_entry ''Arsenic'' [] 1, catalog_entry ''Mercury'' [] 3]
        (score_dict [''arsenic'' \<mapsto> 6, ''mercury'' \<mapsto> 6] Map.empty Map.empty))
   = [(''Arsenic'', 1, 2), (''Mercury'', 1, 2), (''Arsenic'', 3, 4), (''Mercury'', 3, 4), (''Mercury'', 3, 4)]"
  by (simp add: matcher_eval)


section \<open>Priority tiers\<close>

text \<open>
  C8. The priority written into the record of a candidate is a function of its 1-based
  position in the list alone: 1 for positions 1 to 3, 2 for positions 4 to 6, 3 for
  positions 7 to 10, whatever the final priorities of the candidates are.
\<close>

theorem tier_by_rank_position:
  "map priority (assignment_rows patient report date matched_interventions)
     = map priority_tier [1 ..< Suc (length matched_interventions)]
   \<and> map priority_tier [1 ..< 11] = [1, 1, 1, 2, 2, 2, 3, 3, 3, 3]
   \<and> map priority (assignment_rows patient report date
        (match_interventions_for_patient module_globals interventions sd))
       = take (length (match_interventions_for_patient module_globals interventions sd))
           [1, 1, 1, 2, 2, 2, 3, 3, 3, 3]"
proof (intro conjI)
  show rows: "map priority (assignment_rows patient report date ms)
          = map priority_tier [1 ..< Suc (length ms)]" for ms
    using priority_assignment_rows[of patient report date 1 ms]
    by (simp add: assignment_rows_def)
  show tiers: "map priority_tier [1 ..< 11] = [1, 1, 1, 2, 2, 2, 3, 3, 3, 3]"
    by (simp add: priority_tier_def upt_rec)
  let ?out = "match_interventions_for_patient module_globals interventions sd"
  have len: "length ?out \<le> 10"
    by (simp add: match_interventions_for_patient_def slice_to_def max_interventions)
  have "map priority_tier [1 ..< Suc (length ?out)] = take (length ?out) (map priority_tier [1 ..< 11])"
    using len by (simp add: take_map)
  then show "map priority (assignment_rows patient report date ?out)
               = take (length ?out) [1, 1, 1, 2, 2, 2, 3, 3, 3, 3]"
    by (simp only: rows tiers)
qed


section \<open>The keyword table\<close>

text \<open>
  C10. The matcher's result does not depend on \<open>SOURCE_CATEGORY_KEYWORDS\<close>: two runs that
  differ in the contents of the table only return the same list. Relevance is decided by
  the whitespace-separated words of the entry's own source category, looked for in the
  primary source.
\<close>

theorem keyword_table_not_consulted:
  "match_interventions_for_patient (g\<lparr>SOURCE_CATEGORY_KEYWORDS := table\<rparr>) interventions sd
     = match_interventions_for_patient (g\<lparr>SOURCE_CATEGORY_KEYWORDS := table'\<rparr>) interventions sd
   \<and> relevance_score sc primary_source
       = (if sc \<noteq> [] \<and> (\<exists>keyword \<in> set (split sc). sublist keyword primary_source) then 100
          else if sc = [] then 50 else 0)"
proof
  have "base_priority (g\<lparr>SOURCE_CATEGORY_KEYWORDS := t\<rparr>) score conf
          = base_priority g score conf" for t score conf
    by (simp add: base_priority_def)
  then have "match_domain (g\<lparr>SOURCE_CATEGORY_KEYWORDS := t\<rparr>) interventions sd
          = match_domain g interventions sd" for t
    by (intro ext) (simp add: match_domain_def Let_def)
  then have "all_matches (g\<lparr>SOURCE_CATEGORY_KEYWORDS := t\<rparr>) interventions sd
          = all_matches g interventions sd" for t
    by (simp add: all_matches_def)
  then have "match_interventions_for_patient (g\<lparr>SOURCE_CATEGORY_KEYWORDS := t\<rparr>) interventions sd
          = match_interventions_for_patient g interventions sd" for t
    by (simp add: match_interventions_for_patient_def)
  then show "match_interventions_for_patient (g\<lparr>SOURCE_CATEGORY_KEYWORDS := table\<rparr>) interventions sd
     = match_interventions_for_patient (g\<lparr>SOURCE_CATEGORY_KEYWORDS := table'\<rparr>) interventions sd"
    by simp
next
  show "relevance_score sc primary_source
       = (if sc \<noteq> [] \<and> (\<exists>keyword \<in> set (split sc). sublist keyword primary_source) then 100
          else if sc = [] then 50 else 0)"
    by (simp add: relevance_score_def list_ex_iff str_in_sublist)
qed

lemma keyword_table_example:
  "map_of (SOURCE_CATEGORY_KEYWORDS module_globals) ''well_water''
     = Some [''well water'', ''unfiltered water'', ''private well'']
   \<and> match_interventions_for_patient module_globals [catalog_entry ''Arsenic'' ''well_water'' 1]
       (score_dict [''arsenic'' \<mapsto> 8] [''arsenic'' \<mapsto> ''We drink from a private well''] Map.empty) = []
   \<and> map final_priority (match_interventions_for_patient module_globals [catalog_entry ''Arsenic'' ''well_water'' 1]
       (score_dict [''arsenic'' \<mapsto> 8] [''arsenic'' \<mapsto> ''well_water''] Map.empty)) = [1]"
  by (simp add: matcher_eval module_globals_def)

end
